theory Spec2Isabelle
  imports Main "HOL-Library.AList" "HOL-Library.Char_ord" "HOL-Library.List_Lexorder"
begin

section \<open>The password manager of main_program.py\<close>

text \<open>
  The program is one class, \<^verbatim>\<open>PasswordManager\<close>, a Qt window that keeps two
  dictionaries (\<^verbatim>\<open>self.passwords\<close>, \<^verbatim>\<open>self.settings\<close>), six line edits, a
  stack of pages and two JSON files. The model keeps exactly that state in one record and
  turns every method that reads or changes it into a function on the record. What the
  user or the operating system decides (the answer to the confirmation box, whether a
  write goes through) is an argument of the function.

  Strings: a \<^typ>\<open>char\<close> stands for the code point of the same number, so the strings
  of the model are the Python strings whose code points are below 256.
\<close>

subsection \<open>Python's str.strip and int\<close>

text \<open>
  \<^verbatim>\<open>str.strip()\<close> removes the characters for which \<^verbatim>\<open>str.isspace\<close> holds from both
  ends. Below 256 these are TAB, LF, VT, FF, CR, the four separators FS, GS, RS, US,
  the space, NEL (0x85) and the no-break space (0xA0).
\<close>

definition py_isspace :: "char \<Rightarrow> bool" where
  "py_isspace c =
     (c \<in> set [CHR 0x09, CHR 0x0A, CHR 0x0B, CHR 0x0C, CHR 0x0D,
               CHR 0x1C, CHR 0x1D, CHR 0x1E, CHR 0x1F, CHR 0x20, CHR 0x85, CHR 0xA0])"

definition strip :: "string \<Rightarrow> string" where
  "strip s = rev (dropWhile py_isspace (rev (dropWhile py_isspace s)))"

text \<open>
  \<^verbatim>\<open>int(text)\<close> in base 10, as CPython reads it: white space at both ends is
  skipped (here the separators 0x1C to 0x1F do not count), one sign may follow, then
  decimal digits in which single underscores may stand between two digits. Anything else
  raises \<^verbatim>\<open>ValueError\<close>, and so does a literal of more than 4300 digits (the
  interpreter's default limit on integer strings). \<^verbatim>\<open>ValueError\<close> is the value
  \<open>None\<close>.
\<close>

definition int_isspace :: "char \<Rightarrow> bool" where
  "int_isspace c =
     (c \<in> set [CHR 0x09, CHR 0x0A, CHR 0x0B, CHR 0x0C, CHR 0x0D, CHR 0x20, CHR 0x85, CHR 0xA0])"

definition is_digit :: "char \<Rightarrow> bool" where
  "is_digit c = (c \<in> set ''0123456789'')"

definition digit_value :: "char \<Rightarrow> nat" where
  "digit_value c = of_char c - 48"

text \<open>
  The scan of the digits: \<open>prev\<close> is the character before the current one, \<open>n\<close> the
  number of digits seen, \<open>acc\<close> their value.
\<close>

fun scan_digits :: "char \<Rightarrow> nat \<Rightarrow> nat \<Rightarrow> string \<Rightarrow> (nat \<times> nat) option" where
  "scan_digits prev n acc [] = (if prev = CHR ''_'' then None else Some (n, acc))"
| "scan_digits prev n acc (c # cs) =
     (if c = CHR ''_'' then (if prev = CHR ''_'' then None else scan_digits c n acc cs)
      else if is_digit c then scan_digits c (Suc n) (10 * acc + digit_value c) cs
      else None)"

definition max_str_digits :: nat where
  "max_str_digits = 4300"

definition py_int :: "string \<Rightarrow> int option" where
  "py_int s =
     (let t = dropWhile int_isspace s;
          negative = (t \<noteq> [] \<and> hd t = CHR ''-'');
          u = (if t \<noteq> [] \<and> (hd t = CHR ''+'' \<or> hd t = CHR ''-'') then tl t else t);
          body = rev (dropWhile int_isspace (rev u))
      in if body = [] \<or> hd body = CHR ''_'' then None
         else (case scan_digits (CHR 0x00) 0 0 body of
                 None \<Rightarrow> None
               | Some (n, v) \<Rightarrow>
                   if n > max_str_digits then None
                   else Some (if negative then - int v else int v)))"

subsection \<open>Dictionaries\<close>

text \<open>
  A Python dictionary keeps its keys in insertion order and \<^verbatim>\<open>json.dump\<close> writes
  them in that order, so a dictionary is an association list. \<^verbatim>\<open>d[k] = v\<close> is
  \<^const>\<open>AList.update\<close>: the value is replaced in place when the key is there and the
  pair is appended otherwise.
\<close>

text \<open>
  The exceptions the program meets. \<^verbatim>\<open>JSONDecodeError\<close> is a subclass of
  \<^verbatim>\<open>ValueError\<close> in Python; here \<open>ValueError\<close> stands for a \<^verbatim>\<open>ValueError\<close> that
  is not a \<^verbatim>\<open>JSONDecodeError\<close>, so that \<^verbatim>\<open>except json.JSONDecodeError\<close> catches the
  first and not the second.
\<close>

datatype py_exn =
    KeyError string
  | OSError
  | UnicodeDecodeError
  | JSONDecodeError
  | ValueError
  | RecursionError

type_synonym 'v dict = "(string \<times> 'v) list"

definition dict_get :: "'v dict \<Rightarrow> string \<Rightarrow> 'v \<Rightarrow> 'v" where
  \<comment> \<open>\<^verbatim>\<open>d.get(k, default)\<close>\<close>
  "dict_get d k dflt = (case map_of d k of None \<Rightarrow> dflt | Some v \<Rightarrow> v)"

definition dict_del :: "string \<Rightarrow> 'v dict \<Rightarrow> py_exn + 'v dict" where
  \<comment> \<open>\<^verbatim>\<open>del d[k]\<close>, which raises \<^verbatim>\<open>KeyError\<close> on a key that is not there\<close>
  "dict_del k d = (case map_of d k of None \<Rightarrow> Inl (KeyError k) | Some v \<Rightarrow> Inr (AList.delete k d))"

definition dict_update :: "'v dict \<Rightarrow> 'v dict \<Rightarrow> 'v dict" where
  \<comment> \<open>\<^verbatim>\<open>d.update(other)\<close>: every pair of \<open>other\<close> is stored in \<open>d\<close>, in order\<close>
  "dict_update d other = fold (\<lambda>kv acc. AList.update (fst kv) (snd kv) acc) other d"

subsection \<open>JSON values and the two files\<close>

text \<open>
  A non-integer number is kept as its literal; the program never looks inside one.
\<close>

datatype json =
    JNull
  | JBool bool
  | JInt int
  | JFloat string
  | JStr string
  | JArr "json list"
  | JObj "(string \<times> json) list"

text \<open>
  What \<^verbatim>\<open>os.path.exists\<close>, \<^verbatim>\<open>open\<close> and \<^verbatim>\<open>json.load\<close> make of a file.
  It is not there (\<open>Missing\<close>); or reading it raises (\<open>Raises\<close>); or \<^verbatim>\<open>json.load\<close>
  returns a dictionary (\<open>Document\<close>). The exception of \<open>Raises\<close> tells what is wrong
  with the file:
  \<^item> \<open>OSError\<close>: it cannot be opened (no permission, a directory of that name);
  \<^item> \<open>UnicodeDecodeError\<close>: its bytes do not decode to text;
  \<^item> \<open>JSONDecodeError\<close>: its text is not a JSON document (an empty file, an object cut
    short, a stray character);
  \<^item> \<open>ValueError\<close>: the text has an integer literal of more than 4300 digits, which
    the parser's call of \<^verbatim>\<open>int\<close> refuses;
  \<^item> \<open>RecursionError\<close>: the text is nested more deeply than the interpreter's
    recursion limit allows.

  Both files are mappings (the credential file from names to secrets, the settings file
  from keys to JSON values), and every file the program writes is one. A file for which
  \<^verbatim>\<open>json.load\<close> returns a value that is no dictionary is outside this model.
\<close>

datatype 'v json_file = Missing | Raises py_exn | Document "'v dict"

text \<open>
  The files the specification calls malformed: those that are there and whose content
  cannot be parsed, whatever exception tells so.
\<close>

definition unparseable :: "'v json_file \<Rightarrow> bool" where
  "unparseable f =
     (f = Raises UnicodeDecodeError \<or> f = Raises JSONDecodeError \<or>
      f = Raises ValueError \<or> f = Raises RecursionError)"

text \<open>
  The fate of one attempt to write a file: it succeeds; \<^verbatim>\<open>open(filename, 'w')\<close>
  raises, with the given message, and the file stays as it was; or the file is opened
  (and so truncated) and the write raises later, which leaves a piece of text that is
  no JSON document.
\<close>

datatype disk_write = WriteOk | OpenFails string | DumpFails string

subsection \<open>The window\<close>

datatype dialog =
    Information string string
  | Warning string string
  | Critical string string
  | Question string string

record pm =
  passwords :: "string dict"
  settings :: "json dict"
  program_input :: string
  password_input :: string
  update_program_input :: string
  update_password_input :: string
  min_length_input :: string
  max_length_input :: string
  current_index :: nat
  password_list :: "string list"
  dialogs :: "dialog list"
  passwords_file :: "string json_file"
  settings_file :: "json json_file"

text \<open>
  \<open>password_list\<close> is the list of names the main page shows, \<open>dialogs\<close> the message
  boxes shown so far, oldest first, \<open>current_index\<close> the page of the stacked widget.
\<close>

definition message :: "dialog \<Rightarrow> pm \<Rightarrow> pm" where
  "message d st = st\<lparr>dialogs := dialogs st @ [d]\<rparr>"

definition load_passwords :: "pm \<Rightarrow> py_exn + pm" where
  "load_passwords st =
     (let st1 = st\<lparr>passwords := []\<rparr>
      in case passwords_file st1 of
           Missing \<Rightarrow> Inr st1
         | Raises e \<Rightarrow> (if e = JSONDecodeError then Inr st1 else Inl e)
         | Document d \<Rightarrow> Inr (st1\<lparr>passwords := d\<rparr>))"

definition default_settings :: "json dict" where
  "default_settings =
     [(''min_length'', JInt 8),
      (''max_length'', JInt 20),
      (''require_special'', JBool True),
      (''require_capital'', JBool True),
      (''require_number'', JBool True)]"

definition load_settings :: "pm \<Rightarrow> py_exn + pm" where
  "load_settings st =
     (let st1 = st\<lparr>settings := default_settings\<rparr>
      in case settings_file st1 of
           Missing \<Rightarrow> Inr st1
         | Raises e \<Rightarrow> (if e = JSONDecodeError then Inr st1 else Inl e)
         | Document saved_settings \<Rightarrow>
             Inr (st1\<lparr>settings := dict_update (settings st1) saved_settings\<rparr>))"

text \<open>
  \<^verbatim>\<open>save_to_json(data, filename, success_msg)\<close> returns whether the write went
  through, the file afterwards and the message box it shows.
\<close>

definition save_to_json ::
  "disk_write \<Rightarrow> 'v dict \<Rightarrow> 'v json_file \<Rightarrow> string option \<Rightarrow> bool \<times> 'v json_file \<times> dialog list" where
  "save_to_json w data old success_msg =
     (case w of
        WriteOk \<Rightarrow>
          (True, Document data,
           (case success_msg of
              None \<Rightarrow> []
            | Some m \<Rightarrow> if m = [] then [] else [Information ''Success'' m]))
      | OpenFails e \<Rightarrow> (False, old, [Critical ''Error'' (''Failed to save: '' @ e)])
      | DumpFails e \<Rightarrow> (False, Raises JSONDecodeError, [Critical ''Error'' (''Failed to save: '' @ e)]))"

definition refresh_password_list :: "pm \<Rightarrow> pm" where
  "refresh_password_list st = st\<lparr>password_list := sort (map fst (passwords st))\<rparr>"

definition show_main_page :: "pm \<Rightarrow> pm" where
  "show_main_page st = st\<lparr>current_index := 0\<rparr>"

definition show_add_password_page :: "pm \<Rightarrow> pm" where
  "show_add_password_page st = st\<lparr>current_index := 1\<rparr>"

definition show_help_page :: "pm \<Rightarrow> pm" where
  "show_help_page st = st\<lparr>current_index := 2\<rparr>"

definition show_settings_page :: "pm \<Rightarrow> pm" where
  "show_settings_page st = st\<lparr>current_index := 3\<rparr>"

definition show_update_password_page :: "string \<Rightarrow> pm \<Rightarrow> pm" where
  "show_update_password_page program_name st =
     st\<lparr>update_program_input := program_name, update_password_input := [], current_index := 4\<rparr>"

definition save_passwords_file :: "disk_write \<Rightarrow> string \<Rightarrow> pm \<Rightarrow> bool \<times> pm" where
  \<comment> \<open>the call \<^verbatim>\<open>self.save_to_json(self.passwords, self.passwords_file, msg)\<close>\<close>
  "save_passwords_file w msg st =
     (case save_to_json w (passwords st) (passwords_file st) (Some msg) of
        (ok, f, ds) \<Rightarrow> (ok, st\<lparr>passwords_file := f, dialogs := dialogs st @ ds\<rparr>))"

definition save_settings_file :: "disk_write \<Rightarrow> string \<Rightarrow> pm \<Rightarrow> bool \<times> pm" where
  \<comment> \<open>the call \<^verbatim>\<open>self.save_to_json(self.settings, self.settings_file, msg)\<close>\<close>
  "save_settings_file w msg st =
     (case save_to_json w (settings st) (settings_file st) (Some msg) of
        (ok, f, ds) \<Rightarrow> (ok, st\<lparr>settings_file := f, dialogs := dialogs st @ ds\<rparr>))"

definition save_settings :: "disk_write \<Rightarrow> pm \<Rightarrow> pm" where
  "save_settings w st =
     (case py_int (min_length_input st) of
        None \<Rightarrow> message (Warning ''Invalid Input'' ''Length values must be valid numbers.'') st
      | Some min_length \<Rightarrow>
         (case py_int (max_length_input st) of
            None \<Rightarrow> message (Warning ''Invalid Input'' ''Length values must be valid numbers.'') st
          | Some max_length \<Rightarrow>
              if min_length < 1 \<or> max_length < min_length
              then message (Warning ''Invalid Input''
                     ''Minimum length must be at least 1 and maximum length must be greater than or equal to minimum length.'') st
              else
                (let st1 = st\<lparr>settings := AList.update ''min_length'' (JInt min_length) (settings st)\<rparr>;
                     st2 = st1\<lparr>settings := AList.update ''max_length'' (JInt max_length) (settings st1)\<rparr>
                 in case save_settings_file w ''Settings saved successfully!'' st2 of
                      (ok, st3) \<Rightarrow> if ok then show_main_page st3 else st3)))"

definition save_password :: "disk_write \<Rightarrow> pm \<Rightarrow> pm" where
  "save_password w st =
     (let program = strip (program_input st);
          password = strip (password_input st)
      in if program = [] \<or> password = []
         then message (Warning ''Input Error'' ''Both fields are required!'') st
         else
           (let st1 = st\<lparr>passwords := AList.update program password (passwords st)\<rparr>
            in case save_passwords_file w ''Password saved successfully!'' st1 of
                 (ok, st2) \<Rightarrow>
                   if ok
                   then show_main_page (refresh_password_list
                          (st2\<lparr>program_input := [], password_input := []\<rparr>))
                   else st2))"

definition update_password :: "disk_write \<Rightarrow> pm \<Rightarrow> pm" where
  "update_password w st =
     (let program = strip (update_program_input st);
          password = strip (update_password_input st)
      in if password = []
         then message (Warning ''Input Error'' ''Password cannot be empty!'') st
         else
           (let st1 = st\<lparr>passwords := AList.update program password (passwords st)\<rparr>
            in case save_passwords_file w ''Password updated successfully!'' st1 of
                 (ok, st2) \<Rightarrow>
                   if ok
                   then show_main_page (refresh_password_list (st2\<lparr>update_password_input := []\<rparr>))
                   else st2))"

definition retrieve_password :: "string \<Rightarrow> pm \<Rightarrow> pm" where
  "retrieve_password program_name st =
     (let password = dict_get (passwords st) program_name []
      in message (Information ''Password''
                   (''Password for '' @ program_name @ '': '' @ password)) st)"

text \<open>
  \<open>yes\<close> is the user's answer to the confirmation box. An exception that leaves the
  method is \<open>Inl\<close>.
\<close>

definition delete_password :: "string \<Rightarrow> bool \<Rightarrow> disk_write \<Rightarrow> pm \<Rightarrow> py_exn + pm" where
  "delete_password program_name yes w st =
     (let st1 = message (Question ''Delete Password''
                          (''Delete password for '' @ program_name @ ''?'')) st
      in if yes
         then (case dict_del program_name (passwords st1) of
                 Inl e \<Rightarrow> Inl e
               | Inr d \<Rightarrow>
                   (case save_passwords_file w ''Password deleted successfully!''
                           (st1\<lparr>passwords := d\<rparr>) of
                      (ok, st2) \<Rightarrow> Inr (if ok then refresh_password_list st2 else st2)))
         else Inr st1)"

text \<open>
  \<^verbatim>\<open>__init__\<close>: both files are loaded, then \<^verbatim>\<open>setup_ui\<close> builds the pages with
  empty line edits, fills the list of the main page and shows that page.
\<close>

definition setup_ui :: "pm \<Rightarrow> pm" where
  "setup_ui st =
     refresh_password_list
       (st\<lparr>program_input := [], password_input := [],
           update_program_input := [], update_password_input := [],
           min_length_input := [], max_length_input := [],
           current_index := 0\<rparr>)"

definition init :: "string json_file \<Rightarrow> json json_file \<Rightarrow> py_exn + pm" where
  "init pf sf =
     (let st = \<lparr>passwords = [], settings = [],
                program_input = [], password_input = [],
                update_program_input = [], update_password_input = [],
                min_length_input = [], max_length_input = [],
                current_index = 0, password_list = [], dialogs = [],
                passwords_file = pf, settings_file = sf\<rparr>
      in case load_passwords st of
           Inl e \<Rightarrow> Inl e
         | Inr st1 \<Rightarrow> (case load_settings st1 of
                        Inl e \<Rightarrow> Inl e
                      | Inr st2 \<Rightarrow> Inr (setup_ui st2)))"

subsection \<open>The operations as a caller performs them\<close>

text \<open>
  The methods read their arguments from the line edits. To add a credential the user
  opens the page, types the name and the secret and presses Save; to update one the
  user presses Update in the row of the name, which opens the update page and fills in
  the name, then types the new secret and presses Update.
\<close>

definition add :: "string \<Rightarrow> string \<Rightarrow> disk_write \<Rightarrow> pm \<Rightarrow> pm" where
  "add name secret w st =
     save_password w ((show_add_password_page st)\<lparr>program_input := name, password_input := secret\<rparr>)"

definition update :: "string \<Rightarrow> string \<Rightarrow> disk_write \<Rightarrow> pm \<Rightarrow> pm" where
  "update name secret w st =
     update_password w ((show_update_password_page name st)\<lparr>update_password_input := secret\<rparr>)"

text \<open>The window that \<^verbatim>\<open>__init__\<close> builds when neither file exists.\<close>

definition fresh :: pm where
  "fresh =
     \<lparr>passwords = [], settings = default_settings,
      program_input = [], password_input = [],
      update_program_input = [], update_password_input = [],
      min_length_input = [], max_length_input = [],
      current_index = 0, password_list = [], dialogs = [],
      passwords_file = Missing, settings_file = Missing\<rparr>"

subsection \<open>The policy check of the specification\<close>

text \<open>
  Modelled from the spec: the program has no function that checks a secret against the
  settings (the settings are stored and never read again), so the ValidationEngine of
  section 4.2 is written here from the specification's words, to state which secrets
  violate the configured policy. The character classes are those of ASCII. A rule whose
  setting is absent or of another type reports nothing.
\<close>

datatype violation_kind = TooShort | TooLong | MissingSpecial | MissingCapital | MissingNumber

definition is_upper :: "char \<Rightarrow> bool" where
  "is_upper c = (c \<in> set ''ABCDEFGHIJKLMNOPQRSTUVWXYZ'')"

definition is_lower :: "char \<Rightarrow> bool" where
  "is_lower c = (c \<in> set ''abcdefghijklmnopqrstuvwxyz'')"

definition is_special :: "char \<Rightarrow> bool" where
  "is_special c = (\<not> is_upper c \<and> \<not> is_lower c \<and> \<not> is_digit c)"

definition validate :: "string \<Rightarrow> json dict \<Rightarrow> violation_kind set" where
  "validate secret policy =
     (case map_of policy ''min_length'' of
        Some (JInt m) \<Rightarrow> if int (length secret) < m then {TooShort} else {}
      | _ \<Rightarrow> {})
     \<union> (case map_of policy ''max_length'' of
        Some (JInt m) \<Rightarrow> if m < int (length secret) then {TooLong} else {}
      | _ \<Rightarrow> {})
     \<union> (case map_of policy ''require_special'' of
        Some (JBool b) \<Rightarrow> if b \<and> \<not> list_ex is_special secret then {MissingSpecial} else {}
      | _ \<Rightarrow> {})
     \<union> (case map_of policy ''require_capital'' of
        Some (JBool b) \<Rightarrow> if b \<and> \<not> list_ex is_upper secret then {MissingCapital} else {}
      | _ \<Rightarrow> {})
     \<union> (case map_of policy ''require_number'' of
        Some (JBool b) \<Rightarrow> if b \<and> \<not> list_ex is_digit secret then {MissingNumber} else {}
      | _ \<Rightarrow> {})"

section \<open>Auxiliary facts\<close>

subsection \<open>Trimming\<close>

lemma drop_end_keeps_head:
  assumes "xs = [] \<or> \<not> P (hd xs)"
  shows "dropWhile P (rev (dropWhile P (rev xs))) = rev (dropWhile P (rev xs))"
proof (cases "dropWhile P (rev xs) = []")
  case True
  then have "rev (dropWhile P (rev xs)) = []" by (simp only: rev.simps)
  then show ?thesis by (simp only: dropWhile.simps)
next
  case False
  then have "xs \<noteq> []" by auto
  with assms have h: "\<not> P (hd xs)" by simp
  have "rev xs = takeWhile P (rev xs) @ dropWhile P (rev xs)" by simp
  then have "xs = rev (dropWhile P (rev xs)) @ rev (takeWhile P (rev xs))"
    by (metis rev_append rev_rev_ident)
  then have "hd xs = hd (rev (dropWhile P (rev xs)))"
    using False by (metis hd_append2 rev_is_Nil_conv)
  with h show ?thesis
    by (simp add: dropWhile_eq_self_iff)
qed

lemma strip_idem: "strip (strip s) = strip s"
proof -
  let ?t = "dropWhile py_isspace s"
  have "?t = [] \<or> \<not> py_isspace (hd ?t)"
    using hd_dropWhile [of py_isspace s] by blast
  then have "dropWhile py_isspace (strip s) = strip s"
    unfolding strip_def by (rule drop_end_keeps_head)
  then show ?thesis
    by (simp add: strip_def [of "strip s"]) (simp add: strip_def)
qed

lemma dropWhile_same_length:
  assumes "length (dropWhile P xs) = length xs"
  shows "dropWhile P xs = xs"
proof -
  have "length (takeWhile P xs) + length (dropWhile P xs) = length xs"
    by (metis length_append takeWhile_dropWhile_id)
  with assms have "takeWhile P xs = []" by simp
  then show ?thesis
    by (metis append_Nil takeWhile_dropWhile_id)
qed

lemma strip_eq_self_iff:
  "strip s = s \<longleftrightarrow> s = [] \<or> (\<not> py_isspace (hd s) \<and> \<not> py_isspace (last s))"
proof
  assume eq: "strip s = s"
  show "s = [] \<or> (\<not> py_isspace (hd s) \<and> \<not> py_isspace (last s))"
  proof (cases "s = []")
    case True then show ?thesis by simp
  next
    case False
    let ?t = "dropWhile py_isspace s"
    have "length s = length (dropWhile py_isspace (rev ?t))"
      using eq by (metis length_rev strip_def)
    moreover have "length (dropWhile py_isspace (rev ?t)) \<le> length ?t"
      by (metis length_dropWhile_le length_rev)
    moreover have "length ?t \<le> length s" by (rule length_dropWhile_le)
    ultimately have l1: "length ?t = length s"
      and l2: "length (dropWhile py_isspace (rev ?t)) = length (rev ?t)"
      by simp_all
    have t: "?t = s"
      using l1 by (rule dropWhile_same_length)
    have "dropWhile py_isspace (rev ?t) = rev ?t"
      using l2 by (rule dropWhile_same_length)
    with t have "dropWhile py_isspace (rev s) = rev s" by simp
    with t False show ?thesis
      by (simp add: dropWhile_eq_self_iff hd_rev)
  qed
next
  assume a: "s = [] \<or> (\<not> py_isspace (hd s) \<and> \<not> py_isspace (last s))"
  show "strip s = s"
  proof (cases "s = []")
    case True then show ?thesis by (simp add: strip_def)
  next
    case False
    with a have h: "\<not> py_isspace (hd s)" and l: "\<not> py_isspace (last s)" by simp_all
    from h have 1: "dropWhile py_isspace s = s"
      by (simp add: dropWhile_eq_self_iff)
    from l False have 2: "dropWhile py_isspace (rev s) = rev s"
      by (simp add: dropWhile_eq_self_iff hd_rev)
    show ?thesis by (simp add: strip_def 1 2)
  qed
qed

subsection \<open>Dictionaries\<close>

lemma map_of_dict_update:
  "distinct (map fst other) \<Longrightarrow> map_of (dict_update d other) = map_of d ++ map_of other"
  unfolding dict_update_def
proof (induction other arbitrary: d)
  case Nil
  then show ?case by simp
next
  case (Cons kv other)
  obtain k v where kv: "kv = (k, v)" by (cases kv)
  from Cons.prems kv have k: "k \<notin> dom (map_of other)" and d: "distinct (map fst other)"
    by (simp_all add: dom_map_of_conv_image_fst)
  have "map_of (fold (\<lambda>kv. AList.update (fst kv) (snd kv)) (kv # other) d)
      = map_of (AList.update k v d) ++ map_of other"
    using Cons.IH [OF d] kv by simp
  also have "\<dots> = (map_of d ++ map_of other)(k \<mapsto> v)"
    using k by (simp add: update_conv' map_add_upd_left)
  also have "\<dots> = map_of d ++ map_of (kv # other)"
    using kv by simp
  finally show ?case .
qed

lemma distinct_dict_update:
  "distinct (map fst d) \<Longrightarrow> distinct (map fst (dict_update d other))"
  unfolding dict_update_def
  by (induction other arbitrary: d) (simp_all add: distinct_update)

lemma once_in_distinct:
  "distinct (map fst d) \<Longrightarrow> map_of d k = Some v \<Longrightarrow> length (filter (\<lambda>kv. fst kv = k) d) = 1"
proof (induction d)
  case Nil
  then show ?case by simp
next
  case (Cons p d)
  show ?case
  proof (cases "fst p = k")
    case True
    with Cons.prems have "k \<notin> fst ` set d" by auto
    then have "filter (\<lambda>kv. fst kv = k) d = []"
      by (auto simp: filter_empty_conv)
    with True show ?thesis by simp
  next
    case False
    with Cons show ?thesis by (cases p) auto
  qed
qed

subsection \<open>What one call changes\<close>

lemma init_fresh: "init Missing Missing = Inr fresh"
  by (simp add: init_def load_passwords_def load_settings_def setup_ui_def
        refresh_password_list_def fresh_def Let_def)

lemma passwords_save_password:
  assumes "strip (program_input st) \<noteq> []" and "strip (password_input st) \<noteq> []"
  shows "passwords (save_password w st) =
         AList.update (strip (program_input st)) (strip (password_input st)) (passwords st)"
  using assms
  by (cases w)
     (simp_all add: save_password_def save_passwords_file_def save_to_json_def Let_def
        refresh_password_list_def show_main_page_def)

lemma passwords_update_password:
  assumes "strip (update_password_input st) \<noteq> []"
  shows "passwords (update_password w st) =
         AList.update (strip (update_program_input st)) (strip (update_password_input st))
           (passwords st)"
  using assms
  by (cases w)
     (simp_all add: update_password_def save_passwords_file_def save_to_json_def Let_def
        refresh_password_list_def show_main_page_def)

lemma passwords_add:
  "strip name \<noteq> [] \<Longrightarrow> strip secret \<noteq> [] \<Longrightarrow>
   passwords (add name secret w st) = AList.update (strip name) (strip secret) (passwords st)"
  by (simp add: add_def passwords_save_password show_add_password_page_def)

lemma passwords_update:
  "strip secret \<noteq> [] \<Longrightarrow>
   passwords (update name secret w st) = AList.update (strip name) (strip secret) (passwords st)"
  by (simp add: update_def passwords_update_password show_update_password_page_def)

lemma dialogs_add:
  "strip name \<noteq> [] \<Longrightarrow> strip secret \<noteq> [] \<Longrightarrow>
   dialogs (add name secret w st) = dialogs st @
     [case w of
        WriteOk \<Rightarrow> Information ''Success'' ''Password saved successfully!''
      | OpenFails e \<Rightarrow> Critical ''Error'' (''Failed to save: '' @ e)
      | DumpFails e \<Rightarrow> Critical ''Error'' (''Failed to save: '' @ e)]"
  by (cases w)
     (simp_all add: add_def save_password_def save_passwords_file_def save_to_json_def Let_def
        refresh_password_list_def show_main_page_def show_add_password_page_def)

lemma dialogs_update:
  "strip secret \<noteq> [] \<Longrightarrow>
   dialogs (update name secret w st) = dialogs st @
     [case w of
        WriteOk \<Rightarrow> Information ''Success'' ''Password updated successfully!''
      | OpenFails e \<Rightarrow> Critical ''Error'' (''Failed to save: '' @ e)
      | DumpFails e \<Rightarrow> Critical ''Error'' (''Failed to save: '' @ e)]"
  by (cases w)
     (simp_all add: update_def update_password_def save_passwords_file_def save_to_json_def
        Let_def refresh_password_list_def show_main_page_def show_update_password_page_def)

lemma strip_samples:
  "strip ''github'' = ''github''"
  "strip ''Sup3r$ecret1'' = ''Sup3r$ecret1''"
  "strip '' Sup3r$ecret1'' = ''Sup3r$ecret1''"
  "strip ''  pass word  '' = ''pass word''"
  "strip ''abc'' = ''abc''"
  "strip ''pw'' = ''pw''"
  "strip ''ghost'' = ''ghost''"
  by (simp_all add: strip_def py_isspace_def)

section \<open>Loading\<close>

text \<open>
  What \<^verbatim>\<open>load_passwords\<close> does take softly: a file that is not there, and text that
  is no JSON document. The method returns, the dictionary is empty and nothing else has
  changed.
\<close>

lemma load_passwords_soft_cases:
  assumes "passwords_file st = Missing \<or> passwords_file st = Raises JSONDecodeError"
  shows "load_passwords st = Inr (st\<lparr>passwords := []\<rparr>)"
  using assms by (auto simp: load_passwords_def Let_def)

text \<open>
  Claim C9 says that loading the credentials gives an empty store, and no error, when
  the credential file does not exist and when it exists but cannot be parsed. The
  program falls short of this: its handler names \<^verbatim>\<open>json.JSONDecodeError\<close> only, so a
  file whose bytes do not decode, or whose text is nested too deeply or holds an
  overlong integer, is unparseable and yet makes \<^verbatim>\<open>load_passwords\<close> raise, and
  \<^verbatim>\<open>__init__\<close> with it, where text that is no JSON document is forgiven.
\<close>

theorem load_passwords_unparseable_raises:
  "unparseable (passwords_file (fresh\<lparr>passwords_file := Raises UnicodeDecodeError\<rparr>))
   \<and> load_passwords (fresh\<lparr>passwords_file := Raises UnicodeDecodeError\<rparr>) = Inl UnicodeDecodeError
   \<and> init (Raises UnicodeDecodeError) Missing = Inl UnicodeDecodeError
   \<and> unparseable (passwords_file (fresh\<lparr>passwords_file := Raises RecursionError\<rparr>))
   \<and> load_passwords (fresh\<lparr>passwords_file := Raises RecursionError\<rparr>) = Inl RecursionError
   \<and> unparseable (passwords_file (fresh\<lparr>passwords_file := Raises ValueError\<rparr>))
   \<and> load_passwords (fresh\<lparr>passwords_file := Raises ValueError\<rparr>) = Inl ValueError
   \<and> unparseable (passwords_file (fresh\<lparr>passwords_file := Raises JSONDecodeError\<rparr>))
   \<and> load_passwords (fresh\<lparr>passwords_file := Raises JSONDecodeError\<rparr>)
       = Inr (fresh\<lparr>passwords_file := Raises JSONDecodeError\<rparr>)"
  by (simp add: unparseable_def load_passwords_def init_def fresh_def Let_def)

text \<open>
  Claim C8, as stated, fails: a key of the settings file that is not one of the five
  known keys is not ignored. \<^verbatim>\<open>dict.update\<close> copies it into the configuration, after
  the defaults.
\<close>

theorem load_settings_unknown_key_counterexample:
  "load_settings (fresh\<lparr>settings_file := Document [(''theme'', JStr ''dark'')]\<rparr>)
   = Inr (fresh\<lparr>settings := default_settings @ [(''theme'', JStr ''dark'')],
               settings_file := Document [(''theme'', JStr ''dark'')]\<rparr>)"
  by (simp add: load_settings_def dict_update_def default_settings_def fresh_def Let_def)

text \<open>
  Claim C8, amended. For every settings file that \<^verbatim>\<open>json.load\<close> reads as an
  object, loading the settings starts from the defaults and overlays that object: a key
  the file does not have keeps its default value, and every key of the file, known or
  not, is in the loaded configuration with the file's value.
\<close>

theorem load_settings_overlay:
  assumes "settings_file st = Document saved" and "distinct (map fst saved)"
  shows "load_settings st = Inr (st\<lparr>settings := dict_update default_settings saved\<rparr>)
       \<and> (\<forall>k. map_of (dict_update default_settings saved) k =
              (case map_of saved k of
                 None \<Rightarrow> map_of default_settings k
               | Some v \<Rightarrow> Some v))"
proof
  show "load_settings st = Inr (st\<lparr>settings := dict_update default_settings saved\<rparr>)"
    using assms(1) by (simp add: load_settings_def Let_def)
  show "\<forall>k. map_of (dict_update default_settings saved) k =
              (case map_of saved k of
                 None \<Rightarrow> map_of default_settings k
               | Some v \<Rightarrow> Some v)"
    using assms(2) by (simp add: map_of_dict_update map_add_def)
qed

theorem load_settings_overlay_witness:
  "load_settings (fresh\<lparr>settings_file := Document [(''theme'', JStr ''dark''), (''min_length'', JInt 4)]\<rparr>)
     = Inr (fresh\<lparr>settings := dict_update default_settings [(''theme'', JStr ''dark''), (''min_length'', JInt 4)],
                 settings_file := Document [(''theme'', JStr ''dark''), (''min_length'', JInt 4)]\<rparr>)
   \<and> map_of (dict_update default_settings [(''theme'', JStr ''dark''), (''min_length'', JInt 4)]) ''max_length''
       = Some (JInt 20)
   \<and> map_of (dict_update default_settings [(''theme'', JStr ''dark''), (''min_length'', JInt 4)]) ''min_length''
       = Some (JInt 4)
   \<and> map_of (dict_update default_settings [(''theme'', JStr ''dark''), (''min_length'', JInt 4)]) ''theme''
       = Some (JStr ''dark'')"
  using load_settings_overlay
          [of "fresh\<lparr>settings_file := Document [(''theme'', JStr ''dark''), (''min_length'', JInt 4)]\<rparr>"
              "[(''theme'', JStr ''dark''), (''min_length'', JInt 4)]"]
  by (simp add: default_settings_def)

section \<open>Saving the settings\<close>

lemma settings_save_settings:
  "map_of (settings (save_settings w st)) k = map_of (settings st) k
   \<or> k = ''min_length'' \<or> k = ''max_length''"
  by (cases w)
     (auto simp: save_settings_def save_settings_file_def save_to_json_def message_def
        show_main_page_def Let_def update_conv' split: option.splits)

lemma py_int_samples:
  "py_int ''5'' = Some 5" "py_int ''3'' = Some 3" "py_int ''0'' = Some 0"
  "py_int ''10'' = Some 10" "py_int ''6'' = Some 6" "py_int ''12'' = Some 12"
  "py_int ''eight'' = None" "py_int [] = None"
  by (simp_all add: py_int_def int_isspace_def is_digit_def digit_value_def max_str_digits_def)

text \<open>
  Claim C7. \<^verbatim>\<open>save_settings\<close> answers with the warning box titled Invalid Input
  exactly when one of the two texts is not an integer for \<^verbatim>\<open>int\<close>, or the minimum
  is below 1, or the maximum is below the minimum. In each of these cases nothing but
  the list of message boxes changes: the configuration in memory and both files are as
  before.
\<close>

theorem save_settings_invalid_input:
  "((\<exists>m. dialogs (save_settings w st) = dialogs st @ [Warning ''Invalid Input'' m]) \<longleftrightarrow>
      (py_int (min_length_input st) = None \<or> py_int (max_length_input st) = None \<or>
       (\<exists>a b. py_int (min_length_input st) = Some a \<and> py_int (max_length_input st) = Some b \<and>
              (a < 1 \<or> b < a))))
   \<and> ((\<exists>m. dialogs (save_settings w st) = dialogs st @ [Warning ''Invalid Input'' m]) \<longrightarrow>
        settings (save_settings w st) = settings st \<and>
        settings_file (save_settings w st) = settings_file st \<and>
        passwords_file (save_settings w st) = passwords_file st \<and>
        save_settings w st = st\<lparr>dialogs := dialogs (save_settings w st)\<rparr>)"
  by (cases w)
     (auto simp: save_settings_def save_settings_file_def save_to_json_def message_def
        show_main_page_def Let_def split: option.splits)

theorem save_settings_invalid_input_witness:
  "dialogs (save_settings WriteOk (fresh\<lparr>min_length_input := ''5'', max_length_input := ''3''\<rparr>))
     = [Warning ''Invalid Input''
         ''Minimum length must be at least 1 and maximum length must be greater than or equal to minimum length.'']
   \<and> settings (save_settings WriteOk (fresh\<lparr>min_length_input := ''5'', max_length_input := ''3''\<rparr>))
     = default_settings
   \<and> settings_file (save_settings WriteOk (fresh\<lparr>min_length_input := ''5'', max_length_input := ''3''\<rparr>))
     = Missing"
  using save_settings_invalid_input
          [of WriteOk "fresh\<lparr>min_length_input := ''5'', max_length_input := ''3''\<rparr>"]
  by (simp add: py_int_samples save_settings_def message_def fresh_def)

text \<open>
  Claim C10. Whatever the two texts are and however the write goes, \<^verbatim>\<open>save_settings\<close>
  leaves every key of the configuration other than \<open>min_length\<close> and \<open>max_length\<close> as it
  was, and so the three flags \<open>require_special\<close>, \<open>require_capital\<close> and
  \<open>require_number\<close>.
\<close>

theorem save_settings_keeps_flags:
  "map_of (settings (save_settings w st)) ''require_special'' = map_of (settings st) ''require_special''
   \<and> map_of (settings (save_settings w st)) ''require_capital'' = map_of (settings st) ''require_capital''
   \<and> map_of (settings (save_settings w st)) ''require_number'' = map_of (settings st) ''require_number''
   \<and> (\<forall>k. k \<noteq> ''min_length'' \<and> k \<noteq> ''max_length'' \<longrightarrow>
          map_of (settings (save_settings w st)) k = map_of (settings st) k)"
  using settings_save_settings [of w st] by auto

theorem save_settings_keeps_flags_witness:
  "map_of (settings (save_settings WriteOk (fresh\<lparr>min_length_input := ''6'', max_length_input := ''12''\<rparr>)))
      ''min_length'' = Some (JInt 6)
   \<and> map_of (settings (save_settings WriteOk (fresh\<lparr>min_length_input := ''6'', max_length_input := ''12''\<rparr>)))
      ''require_special'' = Some (JBool True)
   \<and> map_of (settings (save_settings WriteOk (fresh\<lparr>min_length_input := ''6'', max_length_input := ''12''\<rparr>)))
      ''require_capital'' = Some (JBool True)
   \<and> map_of (settings (save_settings WriteOk (fresh\<lparr>min_length_input := ''6'', max_length_input := ''12''\<rparr>)))
      ''require_number'' = Some (JBool True)"
  using save_settings_keeps_flags
          [of WriteOk "fresh\<lparr>min_length_input := ''6'', max_length_input := ''12''\<rparr>"]
  by (simp add: py_int_samples save_settings_def save_settings_file_def save_to_json_def
        show_main_page_def fresh_def default_settings_def Let_def)

section \<open>Adding, reading, updating and deleting credentials\<close>

lemma dialogs_retrieve_password:
  "dialogs (retrieve_password name st) = dialogs st @
     [Information ''Password'' (''Password for '' @ name @ '': '' @ dict_get (passwords st) name [])]"
  by (simp add: retrieve_password_def message_def Let_def)

lemma delete_password_present:
  assumes "map_of (passwords st) name = Some v"
  shows "delete_password name True w st =
         Inr ((case w of WriteOk \<Rightarrow> refresh_password_list | _ \<Rightarrow> (\<lambda>s. s))
               (st\<lparr>passwords := AList.delete name (passwords st),
                   passwords_file := (case w of WriteOk \<Rightarrow> Document (AList.delete name (passwords st))
                                      | OpenFails e \<Rightarrow> passwords_file st
                                      | DumpFails e \<Rightarrow> Raises JSONDecodeError),
                   dialogs := dialogs st @
                     [Question ''Delete Password'' (''Delete password for '' @ name @ ''?''),
                      (case w of
                         WriteOk \<Rightarrow> Information ''Success'' ''Password deleted successfully!''
                       | OpenFails e \<Rightarrow> Critical ''Error'' (''Failed to save: '' @ e)
                       | DumpFails e \<Rightarrow> Critical ''Error'' (''Failed to save: '' @ e))]\<rparr>))"
  using assms
  by (cases w)
     (simp_all add: delete_password_def dict_del_def message_def save_passwords_file_def
        save_to_json_def Let_def)

text \<open>
  Claim C1, as stated, fails: nothing is rolled back. After an add whose write fails the
  new entry is in the dictionary in memory, although the file does not have it.
\<close>

theorem failed_add_keeps_entry_counterexample:
  "passwords fresh = []
   \<and> passwords (add ''github'' ''Sup3r$ecret1'' (OpenFails ''No space left on device'') fresh)
       = [(''github'', ''Sup3r$ecret1'')]
   \<and> passwords_file (add ''github'' ''Sup3r$ecret1'' (OpenFails ''No space left on device'') fresh)
       = Missing"
  by (simp add: add_def save_password_def save_passwords_file_def save_to_json_def
        show_add_password_page_def strip_samples fresh_def Let_def)

text \<open>
  Claim C1, amended. When the write of the store fails, the change made in memory stays
  and the failure is reported in an error box that carries the cause: after a failed add
  or update the dictionary holds the new entry, after a failed delete the entry is gone.
\<close>

theorem failed_write_keeps_change:
  assumes "w = OpenFails e \<or> w = DumpFails e"
  shows "(strip name \<noteq> [] \<and> strip secret \<noteq> [] \<longrightarrow>
            passwords (add name secret w st) = AList.update (strip name) (strip secret) (passwords st)
          \<and> dialogs (add name secret w st) = dialogs st @ [Critical ''Error'' (''Failed to save: '' @ e)])
       \<and> (strip secret \<noteq> [] \<longrightarrow>
            passwords (update name secret w st) = AList.update (strip name) (strip secret) (passwords st)
          \<and> dialogs (update name secret w st) = dialogs st @ [Critical ''Error'' (''Failed to save: '' @ e)])
       \<and> (map_of (passwords st) name \<noteq> None \<longrightarrow>
            (\<exists>st'. delete_password name True w st = Inr st'
                 \<and> passwords st' = AList.delete name (passwords st)
                 \<and> map_of (passwords st') name = None
                 \<and> dialogs st' = dialogs st @
                     [Question ''Delete Password'' (''Delete password for '' @ name @ ''?''),
                      Critical ''Error'' (''Failed to save: '' @ e)]))"
  using assms
  by (auto simp: passwords_add passwords_update dialogs_add dialogs_update
        delete_password_present delete_conv')

theorem failed_write_keeps_change_witness:
  "map_of (passwords (add ''github'' ''Sup3r$ecret1'' (DumpFails ''No space left on device'') fresh)) ''github''
     = Some ''Sup3r$ecret1''
   \<and> dialogs (add ''github'' ''Sup3r$ecret1'' (DumpFails ''No space left on device'') fresh)
     = [Critical ''Error'' ''Failed to save: No space left on device'']"
  using failed_write_keeps_change
          [of "DumpFails ''No space left on device''" "''No space left on device''"
              "''github''" "''Sup3r$ecret1''" fresh]
  by (simp add: strip_samples fresh_def)

text \<open>
  Claim C2, as stated, fails: under the default settings the secret \<open>abc\<close> is too short
  and has no capital, no digit and no special character, and add stores it and reports
  success.
\<close>

theorem add_violating_secret_counterexample:
  "settings fresh = default_settings
   \<and> validate ''abc'' (settings fresh) = {TooShort, MissingSpecial, MissingCapital, MissingNumber}
   \<and> passwords (add ''github'' ''abc'' WriteOk fresh) = [(''github'', ''abc'')]
   \<and> dialogs (add ''github'' ''abc'' WriteOk fresh)
       = [Information ''Success'' ''Password saved successfully!'']"
  by (simp add: add_def save_password_def save_passwords_file_def save_to_json_def
        show_add_password_page_def show_main_page_def refresh_password_list_def
        strip_samples fresh_def Let_def validate_def default_settings_def
        is_special_def is_upper_def is_lower_def is_digit_def insert_commute)

text \<open>
  Claim C2, amended. Add does not look at the settings: for every name and every secret
  that are not empty after trimming, whether or not the secret violates the configured
  policy, add stores the entry and shows the box of the write (success, or the failure of
  the write), never a policy violation; and with other settings it does the same.
\<close>

theorem add_ignores_policy:
  assumes "strip name \<noteq> []" and "strip secret \<noteq> []"
  shows "map_of (passwords (add name secret w st)) (strip name) = Some (strip secret)
       \<and> dialogs (add name secret w st) = dialogs st @
           [case w of
              WriteOk \<Rightarrow> Information ''Success'' ''Password saved successfully!''
            | OpenFails e \<Rightarrow> Critical ''Error'' (''Failed to save: '' @ e)
            | DumpFails e \<Rightarrow> Critical ''Error'' (''Failed to save: '' @ e)]
       \<and> add name secret w (st\<lparr>settings := policy\<rparr>) = (add name secret w st)\<lparr>settings := policy\<rparr>"
proof -
  have "add name secret w (st\<lparr>settings := policy\<rparr>) = (add name secret w st)\<lparr>settings := policy\<rparr>"
    by (cases w)
       (simp_all add: add_def save_password_def save_passwords_file_def save_to_json_def
          show_add_password_page_def show_main_page_def refresh_password_list_def message_def
          Let_def)
  with assms show ?thesis
    by (simp add: passwords_add dialogs_add update_conv')
qed

theorem add_ignores_policy_witness:
  "validate ''abc'' default_settings \<noteq> {}
   \<and> map_of (passwords (add ''github'' ''abc'' WriteOk fresh)) ''github'' = Some ''abc''
   \<and> dialogs (add ''github'' ''abc'' WriteOk fresh)
       = [Information ''Success'' ''Password saved successfully!'']
   \<and> add ''github'' ''abc'' WriteOk (fresh\<lparr>settings := []\<rparr>)
       = (add ''github'' ''abc'' WriteOk fresh)\<lparr>settings := []\<rparr>"
  using add_ignores_policy [of "''github''" "''abc''" WriteOk fresh "[]"]
  by (simp add: strip_samples fresh_def validate_def default_settings_def)

lemma dict_get_update_same: "dict_get (AList.update k v d) k dflt = v"
  by (simp add: dict_get_def update_conv')

lemma update_absent_appends: "map_of d k = None \<Longrightarrow> AList.update k v d = d @ [(k, v)]"
  by (induction d) (auto split: if_splits)

text \<open>
  Claim C3, as stated, fails in each of its three parts. For the name \<open>ghost\<close>, which
  the fresh store does not have, reading shows the same box as for an entry whose secret
  is the empty string, update stores a new entry and reports success, and delete, once
  confirmed, returns nothing: \<^verbatim>\<open>del\<close> raises \<^verbatim>\<open>KeyError\<close>. The window does reach
  delete with such a name: after a delete whose write fails the row of the name stays
  in the list while the entry is gone, and Delete on that row raises.
\<close>

theorem absent_name_counterexample:
  "map_of (passwords fresh) ''ghost'' = None
   \<and> dialogs (retrieve_password ''ghost'' fresh) = [Information ''Password'' ''Password for ghost: '']
   \<and> dialogs (retrieve_password ''ghost'' (fresh\<lparr>passwords := [(''ghost'', [])]\<rparr>))
       = [Information ''Password'' ''Password for ghost: '']
   \<and> passwords (update ''ghost'' ''pw'' WriteOk fresh) = [(''ghost'', ''pw'')]
   \<and> dialogs (update ''ghost'' ''pw'' WriteOk fresh)
       = [Information ''Success'' ''Password updated successfully!'']
   \<and> delete_password ''ghost'' True WriteOk fresh = Inl (KeyError ''ghost'')
   \<and> password_list (projr (delete_password ''github'' True (OpenFails ''No space left on device'')
                              (add ''github'' ''Sup3r$ecret1'' WriteOk fresh))) = [''github'']
   \<and> passwords (projr (delete_password ''github'' True (OpenFails ''No space left on device'')
                          (add ''github'' ''Sup3r$ecret1'' WriteOk fresh))) = []
   \<and> delete_password ''github'' True WriteOk
         (projr (delete_password ''github'' True (OpenFails ''No space left on device'')
                   (add ''github'' ''Sup3r$ecret1'' WriteOk fresh)))
       = Inl (KeyError ''github'')"
  by (simp add: retrieve_password_def dict_get_def message_def passwords_update dialogs_update
        strip_samples fresh_def Let_def delete_password_def dict_del_def add_def
        save_password_def save_passwords_file_def save_to_json_def show_add_password_page_def
        show_main_page_def refresh_password_list_def)

text \<open>
  Claim C3, amended, for reading and updating (nothing is stated about delete). For a
  name that is not in the store, reading yields the empty string, exactly as for an entry
  whose secret is empty. Update never answers that the name is not there: with a secret
  that is empty after trimming it changes nothing and shows the warning that the
  password cannot be empty; otherwise it stores the trimmed secret under the trimmed
  name, as a new entry at the end when the trimmed name is not in the store, and shows
  the box of the write.
\<close>

theorem absent_name_behaviour:
  assumes "map_of (passwords st) name = None"
  shows "dict_get (passwords st) name [] = []
       \<and> dialogs (retrieve_password name st)
           = dialogs st @ [Information ''Password'' (''Password for '' @ name @ '': '')]
       \<and> dialogs (retrieve_password name (st\<lparr>passwords := AList.update name [] (passwords st)\<rparr>))
           = dialogs (retrieve_password name st)
       \<and> (strip secret = [] \<longrightarrow>
            passwords (update name secret w st) = passwords st
          \<and> dialogs (update name secret w st)
              = dialogs st @ [Warning ''Input Error'' ''Password cannot be empty!''])
       \<and> (strip secret \<noteq> [] \<longrightarrow>
            map_of (passwords (update name secret w st)) (strip name) = Some (strip secret)
          \<and> dialogs (update name secret w st) = dialogs st @
              [case w of
                 WriteOk \<Rightarrow> Information ''Success'' ''Password updated successfully!''
               | OpenFails e \<Rightarrow> Critical ''Error'' (''Failed to save: '' @ e)
               | DumpFails e \<Rightarrow> Critical ''Error'' (''Failed to save: '' @ e)])
       \<and> (strip secret \<noteq> [] \<and> map_of (passwords st) (strip name) = None \<longrightarrow>
            passwords (update name secret w st) = passwords st @ [(strip name, strip secret)])"
proof -
  have get: "dict_get (passwords st) name [] = []"
    using assms by (simp add: dict_get_def)
  have same: "dialogs (retrieve_password name (st\<lparr>passwords := AList.update name [] (passwords st)\<rparr>))
           = dialogs (retrieve_password name st)"
    by (simp add: dialogs_retrieve_password dict_get_update_same get)
  have refused: "strip secret = [] \<Longrightarrow>
      passwords (update name secret w st) = passwords st
      \<and> dialogs (update name secret w st)
          = dialogs st @ [Warning ''Input Error'' ''Password cannot be empty!'']"
    by (simp add: update_def update_password_def show_update_password_page_def message_def Let_def)
  have appended: "strip secret \<noteq> [] \<Longrightarrow> map_of (passwords st) (strip name) = None \<Longrightarrow>
      passwords (update name secret w st) = passwords st @ [(strip name, strip secret)]"
    by (simp add: passwords_update update_absent_appends)
  show ?thesis
    using get same refused appended
    by (simp add: dialogs_retrieve_password passwords_update dialogs_update update_conv')
qed

theorem absent_name_behaviour_witness:
  "dict_get (passwords fresh) ''ghost'' [] = []
   \<and> map_of (passwords (update ''ghost'' ''pw'' WriteOk fresh)) ''ghost'' = Some ''pw''
   \<and> passwords (update ''ghost'' ''pw'' WriteOk fresh) = [(''ghost'', ''pw'')]
   \<and> dialogs (update ''ghost'' ''pw'' WriteOk fresh)
       = [Information ''Success'' ''Password updated successfully!'']
   \<and> passwords (update ''ghost'' ''  '' WriteOk fresh) = []
   \<and> dialogs (update ''ghost'' ''  '' WriteOk fresh)
       = [Warning ''Input Error'' ''Password cannot be empty!'']"
  using absent_name_behaviour [of fresh "''ghost''" "''pw''" WriteOk]
        absent_name_behaviour [of fresh "''ghost''" "''  ''" WriteOk]
  by (simp add: strip_samples fresh_def) (simp add: strip_def py_isspace_def)

text \<open>
  Claim C4, as stated, fails. Under the default settings the secret \<open>Sup3r$ecret1\<close> with
  a space in front satisfies the policy and is not empty after trimming, yet get returns
  it without the space.
\<close>

theorem add_then_get_counterexample:
  "validate '' Sup3r$ecret1'' (settings fresh) = {}
   \<and> strip ''github'' \<noteq> [] \<and> strip '' Sup3r$ecret1'' \<noteq> []
   \<and> dict_get (passwords (add ''github'' '' Sup3r$ecret1'' WriteOk fresh)) ''github'' []
       = ''Sup3r$ecret1''
   \<and> dict_get (passwords (add ''github'' '' Sup3r$ecret1'' WriteOk fresh)) ''github'' []
       \<noteq> '' Sup3r$ecret1''
   \<and> dialogs (retrieve_password ''github'' (add ''github'' '' Sup3r$ecret1'' WriteOk fresh))
       = [Information ''Success'' ''Password saved successfully!'',
          Information ''Password'' ''Password for github: Sup3r$ecret1'']"
  by (simp add: dialogs_retrieve_password passwords_add dialogs_add dict_get_def strip_samples
        fresh_def validate_def default_settings_def is_special_def is_upper_def is_lower_def
        is_digit_def)

text \<open>
  Claim C4, amended. For every name and secret that are not empty after trimming
  (whatever the policy), add followed by get of the trimmed name returns the trimmed
  secret; this is the string passed to add when that string has no white space at its
  ends.
\<close>

theorem add_then_get_trimmed:
  assumes "strip name \<noteq> []" and "strip secret \<noteq> []"
  shows "dict_get (passwords (add name secret w st)) (strip name) [] = strip secret
       \<and> dialogs (retrieve_password (strip name) (add name secret w st))
           = dialogs (add name secret w st) @
             [Information ''Password'' (''Password for '' @ strip name @ '': '' @ strip secret)]
       \<and> (strip secret = secret \<longrightarrow>
            dict_get (passwords (add name secret w st)) (strip name) [] = secret)"
  using assms
  by (simp add: dialogs_retrieve_password passwords_add dict_get_update_same)

theorem add_then_get_trimmed_witness:
  "dict_get (passwords (add ''github'' ''Sup3r$ecret1'' WriteOk fresh)) ''github'' [] = ''Sup3r$ecret1''
   \<and> dialogs (retrieve_password ''github'' (add ''github'' ''Sup3r$ecret1'' WriteOk fresh))
       = [Information ''Success'' ''Password saved successfully!'',
          Information ''Password'' ''Password for github: Sup3r$ecret1'']"
  using add_then_get_trimmed [of "''github''" "''Sup3r$ecret1''" WriteOk fresh]
  by (simp add: strip_samples dialogs_add fresh_def)

text \<open>
  Claim C5, as stated, fails. A secret with white space around it is accepted by add and
  by update and comes back without that white space.
\<close>

theorem secret_not_verbatim_counterexample:
  "dict_get (passwords (add ''github'' ''  pass word  '' WriteOk fresh)) ''github'' []
     = ''pass word''
   \<and> dict_get (passwords (update ''github'' ''  pass word  '' WriteOk
                  (add ''github'' ''Sup3r$ecret1'' WriteOk fresh))) ''github'' []
     = ''pass word''"
  by (simp add: passwords_add passwords_update dict_get_def strip_samples fresh_def)

text \<open>
  Claim C5, amended. Secrets are stored and returned trimmed: for every secret that add
  or update accepts (one that is not empty after trimming), the value stored and later
  returned by get is the secret without the white space at its two ends, everything
  between kept as it is. It is the caller's string, character for character, exactly when
  that string neither begins nor ends with a white-space character.
\<close>

theorem secrets_stored_trimmed:
  "(strip name \<noteq> [] \<and> strip secret \<noteq> [] \<longrightarrow>
      dict_get (passwords (add name secret w st)) (strip name) [] = strip secret)
   \<and> (strip secret \<noteq> [] \<longrightarrow>
      dict_get (passwords (update name secret w st)) (strip name) [] = strip secret)
   \<and> (strip secret \<noteq> [] \<longrightarrow>
      (strip secret = secret \<longleftrightarrow> \<not> py_isspace (hd secret) \<and> \<not> py_isspace (last secret)))
   \<and> strip (strip secret) = strip secret"
proof -
  have "strip secret \<noteq> [] \<Longrightarrow> secret \<noteq> []"
    by (auto simp: strip_def)
  then show ?thesis
    by (auto simp: passwords_add passwords_update dict_get_update_same strip_idem
          strip_eq_self_iff)
qed

theorem secrets_stored_trimmed_witness:
  "dict_get (passwords (add ''github'' ''  pass word  '' WriteOk fresh)) ''github'' [] = ''pass word''
   \<and> dict_get (passwords (update ''github'' ''pw'' WriteOk fresh)) ''github'' [] = ''pw''
   \<and> strip ''pw'' = ''pw''"
  using secrets_stored_trimmed [of "''github''" "''  pass word  ''" WriteOk fresh]
        secrets_stored_trimmed [of "''github''" "''pw''" WriteOk fresh]
  by (simp add: strip_samples)

text \<open>
  Claim C6, as stated, fails. A store loaded from a file can hold the name \<open>a\<close> with a
  space in front; add with that very name reports success and leaves the secret of the
  name as it was, because it writes to the trimmed name. And where add does replace a
  secret, it stores the trimmed secret, not the one passed.
\<close>

theorem add_present_name_counterexample:
  "init (Document [('' a'', ''old'')]) Missing
     = Inr (fresh\<lparr>passwords := [('' a'', ''old'')], password_list := ['' a''],
                 passwords_file := Document [('' a'', ''old'')]\<rparr>)
   \<and> passwords (add '' a'' ''new'' WriteOk
        (fresh\<lparr>passwords := [('' a'', ''old'')], password_list := ['' a''],
               passwords_file := Document [('' a'', ''old'')]\<rparr>))
     = [('' a'', ''old''), (''a'', ''new'')]
   \<and> dialogs (add '' a'' ''new'' WriteOk
        (fresh\<lparr>passwords := [('' a'', ''old'')], password_list := ['' a''],
               passwords_file := Document [('' a'', ''old'')]\<rparr>))
     = [Information ''Success'' ''Password saved successfully!'']
   \<and> passwords (add ''github'' '' pw '' WriteOk (add ''github'' ''Sup3r$ecret1'' WriteOk fresh))
     = [(''github'', ''pw'')]"
  by (simp add: init_def load_passwords_def load_settings_def setup_ui_def
        refresh_password_list_def fresh_def Let_def passwords_add dialogs_add
        strip_def py_isspace_def)

text \<open>
  Claim C6, amended. When the store already has the trimmed name (as it has every name
  that an earlier add stored) and name and secret are not empty after trimming, add
  raises no duplicate-key error: it replaces the secret of the trimmed name in place by
  the trimmed secret, shows the box of the write (success when the write goes through),
  leaves the other entries and the order of the names as they were, and the store has
  exactly one entry for the name.
\<close>

theorem add_existing_name_overwrites:
  assumes "map_of (passwords st) (strip name) = Some old"
    and "distinct (map fst (passwords st))"
    and "strip name \<noteq> []" and "strip secret \<noteq> []"
  shows "map_of (passwords (add name secret w st)) (strip name) = Some (strip secret)
       \<and> (\<forall>k. k \<noteq> strip name \<longrightarrow>
              map_of (passwords (add name secret w st)) k = map_of (passwords st) k)
       \<and> map fst (passwords (add name secret w st)) = map fst (passwords st)
       \<and> distinct (map fst (passwords (add name secret w st)))
       \<and> length (filter (\<lambda>kv. fst kv = strip name) (passwords (add name secret w st))) = 1
       \<and> dialogs (add name secret WriteOk st)
           = dialogs st @ [Information ''Success'' ''Password saved successfully!'']"
proof -
  let ?d = "passwords (add name secret w st)"
  have d: "?d = AList.update (strip name) (strip secret) (passwords st)"
    using assms(3,4) by (rule passwords_add)
  have "strip name \<in> set (map fst (passwords st))"
    using assms(1) by (metis map_of_eq_None_iff option.distinct(1) set_map)
  then have keys: "map fst ?d = map fst (passwords st)"
    by (simp add: d update_keys)
  have val: "map_of ?d (strip name) = Some (strip secret)"
    by (simp add: d update_conv')
  have dist: "distinct (map fst ?d)"
    using assms(2) keys by simp
  have "length (filter (\<lambda>kv. fst kv = strip name) ?d) = 1"
    using dist val by (rule once_in_distinct)
  with keys val dist assms(3,4) show ?thesis
    by (simp add: d update_conv' dialogs_add)
qed

theorem add_existing_name_overwrites_witness:
  "map_of (passwords (add ''github'' ''Sup3r$ecret1'' WriteOk fresh)) ''github'' = Some ''Sup3r$ecret1''
   \<and> map_of (passwords (add ''github'' ''pw'' WriteOk (add ''github'' ''Sup3r$ecret1'' WriteOk fresh)))
       ''github'' = Some ''pw''
   \<and> length (filter (\<lambda>kv. fst kv = ''github'')
       (passwords (add ''github'' ''pw'' WriteOk (add ''github'' ''Sup3r$ecret1'' WriteOk fresh)))) = 1
   \<and> dialogs (add ''github'' ''pw'' WriteOk (add ''github'' ''Sup3r$ecret1'' WriteOk fresh))
       = [Information ''Success'' ''Password saved successfully!'',
          Information ''Success'' ''Password saved successfully!'']"
  using add_existing_name_overwrites
          [of "add ''github'' ''Sup3r$ecret1'' WriteOk fresh" "''github''" "''Sup3r$ecret1''"
              "''pw''" WriteOk]
  by (simp add: strip_samples passwords_add dialogs_add fresh_def)

end
